theory Spec2Isabelle
  imports Main "HOL-Library.Sublist"
begin

section \<open>Host language: strings and numbers\<close>

text \<open>
  The program is \<^verbatim>\<open>static/js/main.js\<close>, the view controller of a news page. A JavaScript
  string is a \<^typ>\<open>string\<close>; a \<^typ>\<open>char\<close> stands for one code unit below 256. A Number
  that holds an integer is an \<^typ>\<open>int\<close>, which is exact below \<open>2 ^ 53\<close>; \<open>NaN\<close> is
  \<open>None\<close> of an \<^typ>\<open>int option\<close>. \<open>undefined\<close> and \<open>null\<close> are \<open>None\<close> as well.
\<close>

definition nl :: "nat \<Rightarrow> string" where
  \<comment> \<open>a line break inside a template literal, followed by the next line's indentation\<close>
  "nl n = CHR 0x0A # replicate n CHR '' ''"

definition digit_char :: "nat \<Rightarrow> char" where
  "digit_char d = ''0123456789'' ! (d mod 10)"

fun nat_digits :: "nat \<Rightarrow> string" where
  "nat_digits n =
     (if n < 10 then [digit_char n] else nat_digits (n div 10) @ [digit_char (n mod 10)])"

declare nat_digits.simps [simp del]

definition toString_number :: "int \<Rightarrow> string" where
  \<comment> \<open>\<open>${n}\<close> for an integral Number below \<open>10 ^ 21\<close> in magnitude\<close>
  "toString_number i =
     (if i < 0 then CHR ''-'' # nat_digits (nat (- i)) else nat_digits (nat i))"

definition isWhiteSpace :: "char \<Rightarrow> bool" where
  \<comment> \<open>white space and line terminators, as \<open>trim\<close> and \<open>parseInt\<close> skip them\<close>
  "isWhiteSpace c =
     (c = CHR 0x09 \<or> c = CHR 0x0A \<or> c = CHR 0x0B \<or> c = CHR 0x0C \<or> c = CHR 0x0D
      \<or> c = CHR 0x20 \<or> c = CHR 0xA0)"


definition digit_value :: "char \<Rightarrow> nat option" where
  "digit_value c =
     (let n = (of_char c :: nat) in
      if 48 \<le> n \<and> n \<le> 57 then Some (n - 48)
      else if 97 \<le> n \<and> n \<le> 122 then Some (n - 87)
      else if 65 \<le> n \<and> n \<le> 90 then Some (n - 55)
      else None)"

definition radix_digit :: "nat \<Rightarrow> char \<Rightarrow> bool" where
  "radix_digit R c = (case digit_value c of None \<Rightarrow> False | Some v \<Rightarrow> v < R)"

fun radix_value :: "nat \<Rightarrow> nat \<Rightarrow> string \<Rightarrow> nat" where
  "radix_value R acc [] = acc"
| "radix_value R acc (c # cs) =
     radix_value R (acc * R + (case digit_value c of None \<Rightarrow> 0 | Some v \<Rightarrow> v)) cs"

fun strip_sign :: "string \<Rightarrow> int \<times> string" where
  "strip_sign [] = (1, [])"
| "strip_sign (c # cs) =
     (if c = CHR ''-'' then (- 1, cs) else if c = CHR ''+'' then (1, cs) else (1, c # cs))"

fun strip_hex_prefix :: "string \<Rightarrow> nat \<times> string" where
  "strip_hex_prefix (c # x # cs) =
     (if c = CHR ''0'' \<and> (x = CHR ''x'' \<or> x = CHR ''X'') then (16, cs) else (10, c # x # cs))"
| "strip_hex_prefix cs = (10, cs)"

definition parseInt :: "string \<Rightarrow> int option" where
  \<comment> \<open>\<open>parseInt(s)\<close> with no radix argument: leading white space, a sign, an optional
      \<open>0x\<close>, then the longest run of digits; \<open>NaN\<close> when that run is empty\<close>
  "parseInt inputString =
     (case strip_sign (dropWhile isWhiteSpace inputString) of (sign, S1) \<Rightarrow>
        (case strip_hex_prefix S1 of (R, S2) \<Rightarrow>
           (let Z = takeWhile (radix_digit R) S2 in
            if Z = [] then None else Some (sign * int (radix_value R 0 Z)))))"

definition number_or :: "int option \<Rightarrow> int \<Rightarrow> int" where
  \<comment> \<open>\<open>x || d\<close> on a Number: \<open>NaN\<close> and \<open>0\<close> are falsy\<close>
  "number_or x d = (case x of None \<Rightarrow> d | Some v \<Rightarrow> if v = 0 then d else v)"

definition text_or :: "string option \<Rightarrow> string \<Rightarrow> string" where
  \<comment> \<open>\<open>x || d\<close> on a string field: a missing field and the empty string are falsy\<close>
  "text_or x d = (case x of None \<Rightarrow> d | Some s \<Rightarrow> if s = [] then d else s)"

definition upper_char :: "char \<Rightarrow> char" where
  "upper_char c =
     (let n = (of_char c :: nat) in if 97 \<le> n \<and> n \<le> 122 then char_of (n - 32) else c)"

definition toUpperCase :: "string \<Rightarrow> string" where
  \<comment> \<open>the ASCII letters; other code units are kept\<close>
  "toUpperCase s = map upper_char s"

section \<open>URLSearchParams\<close>

text \<open>
  The query of \<open>window.location\<close> is the list of its name-value pairs, in order, already
  decoded: \<open>get\<close> reads the first pair of a name, \<open>set\<close> overwrites the first pair and drops
  the others (or appends), \<open>delete\<close> drops every pair of the name.
\<close>

type_synonym params = "(string \<times> string) list"

definition searchParams_get :: "string \<Rightarrow> params \<Rightarrow> string option" where
  "searchParams_get name ps = map_of ps name"

definition searchParams_delete :: "string \<Rightarrow> params \<Rightarrow> params" where
  "searchParams_delete name ps = filter (\<lambda>kv. fst kv \<noteq> name) ps"

fun searchParams_set :: "string \<Rightarrow> string \<Rightarrow> params \<Rightarrow> params" where
  "searchParams_set name v [] = [(name, v)]"
| "searchParams_set name v (kv # ps) =
     (if fst kv = name then (name, v) # searchParams_delete name ps
      else kv # searchParams_set name v ps)"

section \<open>Relative time\<close>

text \<open>
  \<open>new Date(s)\<close> and \<open>toLocaleDateString\<close> belong to the browser and its locale; they are
  the two fields of the host. A date is its time value in milliseconds, \<open>None\<close> for an
  invalid date. \<open>now\<close> is the time value of \<open>new Date()\<close>.
\<close>

record host =
  Date_parse :: "string \<Rightarrow> int option"
  toLocaleDateString :: "int \<Rightarrow> string"

definition formatTimeAgo :: "host \<Rightarrow> int \<Rightarrow> string \<Rightarrow> string" where
  "formatTimeAgo h now dateString =
     (case Date_parse h dateString of
        None \<Rightarrow> ''Invalid Date''
      | Some date \<Rightarrow>
          (let seconds = (now - date) div 1000 in
           if seconds < 60 then ''just now''
           else
             let minutes = seconds div 60 in
             if minutes < 60 then toString_number minutes @ ''m ago''
             else
               let hours = minutes div 60 in
               if hours < 24 then toString_number hours @ ''h ago''
               else
                 let days = hours div 24 in
                 if days < 7 then toString_number days @ ''d ago''
                 else toLocaleDateString h date))"

section \<open>Articles and the markup built from them\<close>

definition BACKEND_URL :: string where
  "BACKEND_URL = ''http://localhost:8000''"

definition FRONTEND_URL :: string where
  "FRONTEND_URL = ''http://localhost:5000''"

text \<open>
  An article of a JSON body. \<open>description\<close> and \<open>url_to_image\<close> may be missing, and the
  code tests them; \<open>language\<close> is a string, any string; the other fields are the text they
  render as in a template literal.
\<close>

record article =
  article_id :: string
  title :: string
  description :: "string option"
  source :: string
  category_name :: string
  language :: string
  published_at :: string
  url_to_image :: "string option"

text \<open>
  A DOM element, with the properties the program reads or writes: \<open>active\<close> says whether the
  class list holds \<open>active\<close>, \<open>display\<close>, \<open>opacity\<close> and \<open>transform\<close> are those of its inline
  style, and \<open>innerHTML\<close> is the markup last assigned.
\<close>

record element =
  className :: string
  active :: bool
  dataset_language :: "string option"
  innerHTML :: string
  display :: string
  opacity :: string
  transform :: string
  disabled :: bool

definition createElement :: element where
  "createElement =
     \<lparr>className = [], active = False, dataset_language = None, innerHTML = [],
      display = [], opacity = [], transform = [], disabled = False\<rparr>"





definition card_languageBadge :: "article \<Rightarrow> string" where
  \<open>card_languageBadge a =
     (if language a = ''en'' then ''<span class="language-en">English</span>''
      else ''<span class="language-rw">Kinyarwanda</span>'')\<close>

definition placeholder_image :: string where
  "placeholder_image =
     ''https://images.unsplash.com/photo-1588681664899-f142ff2dc9b1?ixlib=rb-4.0.3&auto=format&fit=crop&w=500&q=60''"

definition card_html :: "host \<Rightarrow> int \<Rightarrow> article \<Rightarrow> string" where
  \<open>card_html h now a =
     nl 8 @ ''<div class="language-indicator ''
       @ (if language a = ''en'' then ''language-en-indicator'' else ''language-rw-indicator'')
       @ ''">'' @
     nl 12 @ toUpperCase (language a) @
     nl 8 @ ''</div>'' @
     nl 8 @
     nl 8 @ ''<img src="'' @ text_or (url_to_image a) placeholder_image @ ''" '' @
     nl 13 @ ''alt="'' @ title a @ ''" '' @
     nl 13 @ ''class="article-image">'' @
     nl 8 @
     nl 8 @ ''<div class="article-content">'' @
     nl 12 @ ''<div class="article-meta">'' @
     nl 16 @ ''<span class="article-category">'' @ category_name a @ ''</span>'' @
     nl 16 @ ''<span class="article-source">'' @ source a @ ''</span>'' @
     nl 16 @ ''<span class="article-time">'' @ formatTimeAgo h now (published_at a)
       @ ''</span>'' @
     nl 12 @ ''</div>'' @
     nl 12 @
     nl 12 @ ''<h3 class="article-title">'' @
     nl 16 @ ''<a href="'' @ FRONTEND_URL @ ''/article/'' @ article_id a @ ''">'' @
     nl 20 @ title a @
     nl 16 @ ''</a>'' @
     nl 12 @ ''</h3>'' @
     nl 12 @
     nl 12 @ ''<p class="article-description">'' @
     nl 16 @ (case description a of
                None \<Rightarrow> []
              | Some d \<Rightarrow> if d = [] then [] else take 150 d @ ''...'') @
     nl 12 @ ''</p>'' @
     nl 12 @
     nl 12 @ ''<div class="article-footer">'' @
     nl 16 @ card_languageBadge a @
     nl 16 @ ''<a href="'' @ FRONTEND_URL @ ''/article/'' @ article_id a
       @ ''" class="read-more">'' @
     nl 20 @ ''Read More <i class="fas fa-arrow-right"></i>'' @
     nl 16 @ ''</a>'' @
     nl 12 @ ''</div>'' @
     nl 8 @ ''</div>'' @
     nl 4\<close>

definition createArticleCard :: "host \<Rightarrow> int \<Rightarrow> article \<Rightarrow> element" where
  "createArticleCard h now a =
     createElement
       \<lparr>className := ''article-card'',
        dataset_language := Some (language a),
        innerHTML := card_html h now a\<rparr>"

definition notification_html :: "string \<Rightarrow> string \<Rightarrow> string" where
  \<open>notification_html message type =
     nl 8 @ ''<div class="notification-content">'' @
     nl 12 @ ''<i class="fas fa-''
       @ (if type = ''success'' then ''check-circle'' else ''exclamation-circle'')
       @ ''"></i>'' @
     nl 12 @ ''<span>'' @ message @ ''</span>'' @
     nl 8 @ ''</div>'' @
     nl 8 @ ''<button class="notification-close" onclick="this.parentElement.remove()">'' @
     nl 12 @ ''<i class="fas fa-times"></i>'' @
     nl 8 @ ''</button>'' @
     nl 4\<close>

section \<open>The page\<close>

text \<open>
  Callbacks handed to \<open>setTimeout\<close> and \<open>setInterval\<close>, each with the values its closure
  holds: the fade-in and the hiding of a card, the automatic removal of a notification, and
  the tick of the reload countdown with the current value of \<open>countdown\<close>.
\<close>

datatype timer_action = FadeIn nat | Hide nat | AutoRemove nat | Countdown int

text \<open>
  What a handler has after \<open>await fetch(...)\<close> and \<open>await response.json()\<close>: the request was
  rejected, the body was not JSON, or the parsed body.
\<close>

datatype 'a fetched = Rejected | NotJson | Json 'a


text \<open>
  The state of the page. Article cards are objects in a store, addressed by a number;
  \<open>dom_cards\<close> lists the cards attached to the document, as
  \<open>document.querySelectorAll('.article-card')\<close> returns them, and \<open>articleCards\<close> is the node
  list that \<open>initializeLanguageFilter\<close> keeps in its closure. \<open>notifications\<close> are the
  elements of class \<open>notification\<close> in the document, each with its address. \<open>location\<close> is
  the query of the current URL and \<open>history_back\<close> the session history entries behind it.
  \<open>timers\<close> are the pending callbacks with the time they are due, in the order they were
  registered, and \<open>clock\<close> is the time in milliseconds, the one \<open>new Date()\<close> reads. An
  optional element is \<open>None\<close> when the document has none.

  A handler that awaits a response is two functions: the one named after its event runs
  up to the first \<open>await\<close> and returns the locals that stay alive, the one named
  \<open>_response\<close> runs from the outcome of the request to the end of the handler, on the page
  as it is by then.
\<close>

record page =
  clock :: int
  timers :: "(int \<times> timer_action) list"
  location :: params
  history_back :: "params list"
  reload_requested :: bool
  console :: "string list"
  cards :: "nat \<Rightarrow> element"
  dom_cards :: "nat list"
  articleCards :: "nat list"
  articlesGrid :: bool
  languageButtons :: "element list"
  articleCount :: "string option"
  searchInput :: "string option"
  searchResults :: "element option"
  notifications :: "(nat \<times> element) list"
  next_node :: nat
  fetchNewsBtn :: element
  loadMoreBtn :: element

definition setTimeout :: "timer_action \<Rightarrow> int \<Rightarrow> page \<Rightarrow> page" where
  "setTimeout cb delay p = p\<lparr>timers := timers p @ [(clock p + delay, cb)]\<rparr>"

definition pushState :: "params \<Rightarrow> page \<Rightarrow> page" where
  \<comment> \<open>\<open>window.history.pushState\<close>: a new entry after the current one, which stays behind it\<close>
  "pushState url p = p\<lparr>history_back := history_back p @ [location p], location := url\<rparr>"

subsection \<open>Notifications\<close>

definition showNotification :: "string \<Rightarrow> string \<Rightarrow> page \<Rightarrow> page" where
  "showNotification message type p =
     (let n = next_node p;
          notification =
            createElement
              \<lparr>className := ''notification '' @ type,
               innerHTML := notification_html message type\<rparr>
      in setTimeout (AutoRemove n) 5000
           (p\<lparr>notifications := [(n, notification)], next_node := n + 1\<rparr>))"


subsection \<open>Timers\<close>

fun fire :: "timer_action \<Rightarrow> page \<Rightarrow> page" where
  "fire (FadeIn i) p =
     p\<lparr>cards := (cards p)(i := (cards p i)\<lparr>opacity := ''1'', transform := ''translateY(0)''\<rparr>)\<rparr>"
| "fire (Hide i) p =
     p\<lparr>cards := (cards p)(i := (cards p i)\<lparr>display := ''none''\<rparr>)\<rparr>"
| "fire (AutoRemove n) p =
     p\<lparr>notifications := filter (\<lambda>e. fst e \<noteq> n) (notifications p)\<rparr>"
| \<open>fire (Countdown countdown) p =
     (let p1 = p\<lparr>fetchNewsBtn := (fetchNewsBtn p)
                 \<lparr>innerHTML := ''<i class="fas fa-sync-alt"></i> Refreshing in ''
                    @ toString_number countdown @ ''s''\<rparr>\<rparr>
      in if countdown - 1 < 0 then p1\<lparr>reload_requested := True\<rparr>
         else setTimeout (Countdown (countdown - 1)) 1000 p1)\<close>

definition tick :: "page \<Rightarrow> page" where
  \<comment> \<open>one millisecond passes; the callbacks due by then run in the order of registration\<close>
  "tick p =
     (let t = clock p + 1 in
      foldl (\<lambda>q e. fire (snd e) q)
        (p\<lparr>clock := t, timers := filter (\<lambda>e. \<not> fst e \<le> t) (timers p)\<rparr>)
        (filter (\<lambda>e. fst e \<le> t) (timers p)))"

fun advance :: "nat \<Rightarrow> page \<Rightarrow> page" where
  "advance 0 p = p"
| "advance (Suc n) p = advance n (tick p)"

subsection \<open>Language filter\<close>

definition initializeLanguageFilter :: "page \<Rightarrow> page" where
  \<comment> \<open>\<open>const articleCards = document.querySelectorAll('.article-card')\<close>\<close>
  "initializeLanguageFilter p = p\<lparr>articleCards := dom_cards p\<rparr>"

definition filterCard :: "string option \<Rightarrow> page \<Rightarrow> nat \<Rightarrow> page" where
  "filterCard selectedLanguage p i =
     (let card = cards p i; cardLanguage = dataset_language card in
      if selectedLanguage = Some ''all'' \<or> cardLanguage = selectedLanguage
      then setTimeout (FadeIn i) 10
             (p\<lparr>cards := (cards p)(i := card\<lparr>display := ''block''\<rparr>)\<rparr>)
      else setTimeout (Hide i) 300
             (p\<lparr>cards := (cards p)
                 (i := card\<lparr>opacity := ''0'', transform := ''translateY(20px)''\<rparr>)\<rparr>))"

definition filterCards :: "string option \<Rightarrow> page \<Rightarrow> page" where
  \<comment> \<open>\<open>articleCards.forEach(card => ...)\<close>\<close>
  "filterCards selectedLanguage p = foldl (filterCard selectedLanguage) p (articleCards p)"

definition languageFilter_change :: "string \<Rightarrow> page \<Rightarrow> page" where
  "languageFilter_change selectedLanguage p =
     (let p1 = filterCards (Some selectedLanguage) p;
          url = (if selectedLanguage = ''all''
                 then searchParams_delete ''language'' (location p1)
                 else searchParams_set ''language'' selectedLanguage (location p1))
      in pushState url p1)"

definition updateArticleCount :: "string option \<Rightarrow> page \<Rightarrow> page" where
  "updateArticleCount lang p =
     (let visibleCount =
            length (filter (\<lambda>i. (lang = Some ''all'' \<or> dataset_language (cards p i) = lang)
                                \<and> display (cards p i) \<noteq> ''none'') (dom_cards p))
      in case articleCount p of
           None \<Rightarrow> p
         | Some _ \<Rightarrow>
             p\<lparr>articleCount := Some (toString_number (int visibleCount) @ '' articles'')\<rparr>)"

definition languageButton_click :: "nat \<Rightarrow> page \<Rightarrow> page" where
  \<comment> \<open>a click on the \<open>k\<close>-th language button; there is no event without the button\<close>
  "languageButton_click k p =
     (if k < length (languageButtons p) then
        let btns = map (\<lambda>btn. btn\<lparr>active := False\<rparr>) (languageButtons p);
            this = (btns ! k)\<lparr>active := True\<rparr>;
            selectedLanguage = dataset_language this;
            p1 = filterCards selectedLanguage (p\<lparr>languageButtons := btns[k := this]\<rparr>)
        in updateArticleCount selectedLanguage p1
      else p)"

subsection \<open>Search\<close>


definition search_request :: "string \<Rightarrow> string \<times> string \<times> nat" where
  \<comment> \<open>the endpoint, the text of the \<open>search\<close> parameter before escaping, and the limit\<close>
  "search_request query = (BACKEND_URL @ ''/api/v1/articles/'', query, 50)"


subsection \<open>Fetch now\<close>

definition fetchNewsBtn_click :: "page \<Rightarrow> page" where
  \<open>fetchNewsBtn_click p =
     p\<lparr>fetchNewsBtn := (fetchNewsBtn p)
        \<lparr>innerHTML := ''<i class="fas fa-spinner fa-spin"></i> Fetching...'',
         disabled := True\<rparr>\<rparr>\<close>

definition fetchNews_request :: "string \<times> string" where
  "fetchNews_request = (''POST'', BACKEND_URL @ ''/api/v1/fetcher/fetch-now'')"

definition fetchNewsBtn_response :: "string \<Rightarrow> 'a fetched \<Rightarrow> page \<Rightarrow> page" where
  "fetchNewsBtn_response originalText outcome p =
     (case outcome of
        Json data \<Rightarrow>
          setTimeout (Countdown 30) 1000
            (showNotification ''Started fetching latest news! This may take a moment.''
               ''success'' p)
      | _ \<Rightarrow>
          showNotification ''Error starting news fetch. Please try again.'' ''error''
            (p\<lparr>console := console p @ [''Fetch error:''],
               fetchNewsBtn := (fetchNewsBtn p)\<lparr>innerHTML := originalText, disabled := False\<rparr>\<rparr>))"

subsection \<open>Load more\<close>

record load_more_locals =
  originalText :: string
  urlParams :: params
  currentPage :: int

definition loadMoreBtn_click :: "page \<Rightarrow> page \<times> load_more_locals" where
  \<open>loadMoreBtn_click p =
     (p\<lparr>loadMoreBtn := (loadMoreBtn p)
         \<lparr>innerHTML := ''<i class="fas fa-spinner fa-spin"></i> Loading...'',
          disabled := True\<rparr>\<rparr>,
      \<lparr>originalText = innerHTML (loadMoreBtn p),
       urlParams = location p,
       currentPage =
         number_or
           (parseInt (case searchParams_get ''page'' (location p) of
                        None \<Rightarrow> ''null'' | Some v \<Rightarrow> v)) 1 + 1\<rparr>)\<close>


definition appendArticle :: "host \<Rightarrow> page \<Rightarrow> article \<Rightarrow> page" where
  \<comment> \<open>\<open>articlesGrid.appendChild(createArticleCard(article))\<close>\<close>
  "appendArticle h p a =
     (let n = next_node p in
      p\<lparr>cards := (cards p)(n := createArticleCard h (clock p) a),
        dom_cards := dom_cards p @ [n],
        next_node := n + 1\<rparr>)"

definition loadMore_catch :: "load_more_locals \<Rightarrow> page \<Rightarrow> page" where
  "loadMore_catch l p =
     showNotification ''Error loading more articles.'' ''error''
       (p\<lparr>console := console p @ [''Load more error:''],
          loadMoreBtn := (loadMoreBtn p)\<lparr>innerHTML := originalText l, disabled := False\<rparr>\<rparr>)"

definition loadMoreBtn_response ::
  "host \<Rightarrow> load_more_locals \<Rightarrow> article list option fetched \<Rightarrow> page \<Rightarrow> page" where
  "loadMoreBtn_response h l outcome p =
     (case outcome of
        Json articles \<Rightarrow>
          (case articles of
             Some (a # as) \<Rightarrow>
               if articlesGrid p then
                 let p1 = foldl (appendArticle h) p (a # as);
                     p2 = pushState
                            (searchParams_set ''page'' (toString_number (currentPage l))
                               (urlParams l)) p1;
                     p3 = (if length (a # as) < 20
                           then p2\<lparr>loadMoreBtn := (loadMoreBtn p2)\<lparr>display := ''none''\<rparr>\<rparr>
                           else p2)
                 in p3\<lparr>loadMoreBtn := (loadMoreBtn p3)
                         \<lparr>innerHTML := originalText l, disabled := False\<rparr>\<rparr>
               else loadMore_catch l p
           | _ \<Rightarrow>
               p\<lparr>loadMoreBtn := (loadMoreBtn p)
                  \<lparr>display := ''none'', innerHTML := originalText l, disabled := False\<rparr>\<rparr>)
      | _ \<Rightarrow> loadMore_catch l p)"

section \<open>A concrete page\<close>

text \<open>
  A page for concrete runs: an English and a Kinyarwanda card at the addresses 0 and 1, the
  three language buttons, a search box holding \<open>rwanda\<close> between blanks, and no timer
  pending. \<open>page1\<close> is the page once \<open>initializeLanguageFilter\<close> has run. The host of the
  runs reads a time stamp as a number of milliseconds.
\<close>

definition host0 :: host where
  "host0 = \<lparr>Date_parse = parseInt, toLocaleDateString = (\<lambda>t. ''1/1/1970'')\<rparr>"

definition article0 :: article where
  "article0 =
     \<lparr>article_id = ''7'', title = ''Umuganda'', description = Some ''Community work'',
      source = ''Kigali Today'', category_name = ''Society'', language = ''rw'',
      published_at = ''100000'', url_to_image = None\<rparr>"

definition server_card :: "string \<Rightarrow> element" where
  "server_card lang =
     createElement\<lparr>className := ''article-card'', dataset_language := Some lang\<rparr>"

definition language_button :: "string \<Rightarrow> element" where
  "language_button lang =
     createElement\<lparr>className := ''language-btn'', dataset_language := Some lang\<rparr>"

definition page0 :: page where
  "page0 =
     \<lparr>clock = 0, timers = [], location = [], history_back = [], reload_requested = False,
      console = [],
      cards = (\<lambda>_. createElement)(0 := server_card ''en'', 1 := server_card ''rw''),
      dom_cards = [0, 1], articleCards = [], articlesGrid = True,
      languageButtons = [language_button ''all'', language_button ''en'', language_button ''rw''],
      articleCount = Some ''2 articles'',
      searchInput = Some ''  rwanda '', searchResults = Some createElement,
      notifications = [], next_node = 2,
      fetchNewsBtn = createElement\<lparr>innerHTML := ''Fetch News''\<rparr>,
      loadMoreBtn = createElement\<lparr>innerHTML := ''Load More''\<rparr>\<rparr>"

definition page1 :: page where
  "page1 = initializeLanguageFilter page0"

definition page_after_load :: page where
  \<comment> \<open>\<open>page1\<close> after a load-more click that was answered with one Kinyarwanda article\<close>
  "page_after_load =
     loadMoreBtn_response host0 (snd (loadMoreBtn_click page1)) (Json (Some [article0]))
       (fst (loadMoreBtn_click page1))"

definition page_racing :: page where
  \<comment> \<open>\<open>page1\<close> 100 ms after "rw" was selected in the dropdown\<close>
  "page_racing = advance 100 (languageFilter_change ''rw'' page1)"

section \<open>Properties of the relative-time label\<close>

lemma int_div_less_iff:
  fixes a b c :: int
  assumes "0 < c"
  shows "(a div c < b) = (a < b * c)"
proof
  assume "a div c < b"
  then have "a div c + 1 \<le> b" by simp
  then have "(a div c + 1) * c \<le> b * c"
    using assms by (simp add: mult_right_mono)
  moreover have "a < (a div c + 1) * c"
  proof -
    have "a = a div c * c + a mod c" by simp
    moreover have "a mod c < c" using assms by simp
    ultimately have "a < a div c * c + c" by linarith
    then show ?thesis by (simp add: distrib_right)
  qed
  ultimately show "a < b * c" by linarith
next
  assume lt: "a < b * c"
  show "a div c < b"
  proof (rule ccontr)
    assume "\<not> a div c < b"
    then have "b \<le> a div c" by simp
    then have "b * c \<le> a div c * c"
      using assms by (simp add: mult_right_mono)
    moreover have "a div c * c \<le> a"
    proof -
      have "a = a div c * c + a mod c" by simp
      moreover have "0 \<le> a mod c" using assms by simp
      ultimately show ?thesis by linarith
    qed
    ultimately show False using lt by linarith
  qed
qed

lemma minutes_below_60: "((s::int) div 60 < 60) = (s < 3600)"
  by (simp add: int_div_less_iff)

lemma hours_below_24: "((s::int) div 60 div 60 < 24) = (s < 86400)"
  by (simp add: int_div_less_iff)

lemma days_below_7: "((s::int) div 60 div 60 div 24 < 7) = (s < 604800)"
  by (simp add: int_div_less_iff)

lemma toString_number_1: "toString_number 1 = ''1''"
  by code_simp

lemma toString_number_2: "toString_number 2 = ''2''"
  by code_simp


lemma formatTimeAgo_elapsed:
  assumes "Date_parse h ds = Some date" and "(now - date) div 1000 = s"
  shows "formatTimeAgo h now ds =
       (if s < 60 then ''just now''
        else if s div 60 < 60 then toString_number (s div 60) @ ''m ago''
        else if s div 60 div 60 < 24 then toString_number (s div 60 div 60) @ ''h ago''
        else if s div 60 div 60 div 24 < 7
          then toString_number (s div 60 div 60 div 24) @ ''d ago''
        else toLocaleDateString h date)"
  by (simp only: formatTimeAgo_def Let_def assms option.case)

text \<open>
  Claim C5. For a timestamp that parses to a date not after \<open>now\<close>, with \<open>s\<close> the elapsed
  whole seconds, \<open>m = s div 60\<close>, \<open>hr = m div 60\<close> and \<open>d = hr div 24\<close>: \<open>formatTimeAgo\<close> returns
  "just now" when \<open>s < 60\<close>, else "\<open>m\<close>m ago" when \<open>m < 60\<close>, else "\<open>hr\<close>h ago" when
  \<open>hr < 24\<close>, else "\<open>d\<close>d ago" when \<open>d < 7\<close>, else the locale's calendar date. The bounds on
  \<open>m\<close>, \<open>hr\<close> and \<open>d\<close> are bounds of one hour, one day and one week on \<open>s\<close>. 45 seconds give
  "just now", 90 seconds "1m ago", 25 hours "1d ago".
\<close>

theorem formatTimeAgo_thresholds:
  assumes "Date_parse h ds = Some date" and "date \<le> now"
  shows "(let s = (now - date) div 1000; m = s div 60; hr = m div 60; d = hr div 24 in
       0 \<le> s \<and>
       formatTimeAgo h now ds =
        (if s < 60 then ''just now''
         else if m < 60 then toString_number m @ ''m ago''
         else if hr < 24 then toString_number hr @ ''h ago''
         else if d < 7 then toString_number d @ ''d ago''
         else toLocaleDateString h date) \<and>
       (m < 60) = (s < 3600) \<and> (hr < 24) = (s < 86400) \<and> (d < 7) = (s < 604800)) \<and>
     (now - date = 45 * 1000 \<longrightarrow> formatTimeAgo h now ds = ''just now'') \<and>
     (now - date = 90 * 1000 \<longrightarrow> formatTimeAgo h now ds = ''1m ago'') \<and>
     (now - date = 25 * 3600 * 1000 \<longrightarrow> formatTimeAgo h now ds = ''1d ago'')"
proof -
  have pos: "0 \<le> (now - date) div 1000"
    using assms(2) by (simp add: pos_imp_zdiv_nonneg_iff)
  have ex1: "formatTimeAgo h now ds = ''just now''" if "now - date = 45 * 1000"
  proof -
    have "(now - date) div 1000 = 45" unfolding that by simp
    from formatTimeAgo_elapsed [OF assms(1) this] show ?thesis by simp
  qed
  have ex2: "formatTimeAgo h now ds = ''1m ago''" if "now - date = 90 * 1000"
  proof -
    have "(now - date) div 1000 = 90" unfolding that by simp
    from formatTimeAgo_elapsed [OF assms(1) this] show ?thesis
      by (simp add: toString_number_1)
  qed
  have ex3: "formatTimeAgo h now ds = ''1d ago''" if "now - date = 25 * 3600 * 1000"
  proof -
    have "(now - date) div 1000 = 90000" unfolding that by simp
    from formatTimeAgo_elapsed [OF assms(1) this] show ?thesis
      by (simp add: toString_number_1)
  qed
  show ?thesis
    unfolding Let_def
    apply (intro conjI impI)
    subgoal by (rule pos)
    subgoal by (rule formatTimeAgo_elapsed [OF assms(1) refl])
    subgoal by (rule minutes_below_60)
    subgoal by (rule hours_below_24)
    subgoal by (rule days_below_7)
    subgoal by (erule ex1)
    subgoal by (erule ex2)
    subgoal by (erule ex3)
    done
qed

lemma parseInt_100000: "parseInt ''100000'' = Some 100000"
  by (simp add: parseInt_def isWhiteSpace_def radix_digit_def digit_value_def)

theorem formatTimeAgo_thresholds_witness:
  "Date_parse host0 ''100000'' = Some 100000 \<and> (100000 :: int) \<le> 7300000 \<and>
   formatTimeAgo host0 7300000 ''100000'' = ''2h ago''"
proof -
  have p: "Date_parse host0 ''100000'' = Some 100000"
    by (simp add: host0_def parseInt_100000)
  have q: "(100000 :: int) \<le> 7300000" by simp
  from formatTimeAgo_thresholds [OF p q]
  have "formatTimeAgo host0 7300000 ''100000'' = ''2h ago''"
    by (simp add: Let_def toString_number_2)
  with p q show ?thesis by simp
qed

section \<open>Properties of the markup\<close>













lemma card_html_eq_iff:
  "(card_html h now1 a = card_html h now2 a) =
   (formatTimeAgo h now1 (published_at a) = formatTimeAgo h now2 (published_at a))"
  unfolding card_html_def
  by simp

lemma createArticleCard_innerHTML [simp]:
  "innerHTML (createArticleCard h now a) = card_html h now a"
  by (simp add: createArticleCard_def)

lemma createArticleCard_eq_iff:
  "(createArticleCard h now1 a = createArticleCard h now2 a) =
   (formatTimeAgo h now1 (published_at a) = formatTimeAgo h now2 (published_at a))"
proof
  assume "createArticleCard h now1 a = createArticleCard h now2 a"
  then have "innerHTML (createArticleCard h now1 a) = innerHTML (createArticleCard h now2 a)"
    by simp
  then show "formatTimeAgo h now1 (published_at a) = formatTimeAgo h now2 (published_at a)"
    by (simp add: card_html_eq_iff)
next
  assume "formatTimeAgo h now1 (published_at a) = formatTimeAgo h now2 (published_at a)"
  then have "card_html h now1 a = card_html h now2 a"
    by (simp add: card_html_eq_iff)
  then show "createArticleCard h now1 a = createArticleCard h now2 a"
    by (simp add: createArticleCard_def)
qed

lemma Date_parse_host0: "Date_parse host0 ''100000'' = Some 100000"
  by (simp add: host0_def parseInt_100000)






lemma formatTimeAgo_45s: "formatTimeAgo host0 145000 ''100000'' = ''just now''"
proof -
  have "(145000 - 100000) div 1000 = (45 :: int)" by simp
  from formatTimeAgo_elapsed [OF Date_parse_host0 this] show ?thesis by simp
qed

lemma formatTimeAgo_105s: "formatTimeAgo host0 205000 ''100000'' = ''1m ago''"
proof -
  have "(205000 - 100000) div 1000 = (105 :: int)" by simp
  from formatTimeAgo_elapsed [OF Date_parse_host0 this] show ?thesis
    by (simp add: toString_number_1)
qed

text \<open>
  Claim C6 fails as stated: the card holds the relative-time label, which
  \<open>formatTimeAgo\<close> computes from the clock. The same article, 45 seconds old at the first
  invocation and 105 seconds old at the second, gives two different fragments.
\<close>

theorem createArticleCard_counterexample:
  "createArticleCard host0 145000 article0 \<noteq> createArticleCard host0 205000 article0"
proof -
  have "published_at article0 = ''100000''"
    by (simp add: article0_def)
  then show ?thesis
    by (simp add: createArticleCard_eq_iff formatTimeAgo_45s formatTimeAgo_105s)
qed

text \<open>
  Claim C6, as amended. \<open>createArticleCard\<close> is a function of the article, of the time of the
  invocation and of the host's date functions, and of nothing else in the page: two
  invocations with the same article give identical fragments exactly when \<open>formatTimeAgo\<close>
  gives the same label for the article's \<open>published_at\<close> at the two times, and the card
  that load-more stores is \<open>createArticleCard\<close> at the page's clock, whatever the rest of the
  page holds.
\<close>

theorem createArticleCard_depends_on_time_only:
  "(createArticleCard h now1 a = createArticleCard h now2 a) =
     (formatTimeAgo h now1 (published_at a) = formatTimeAgo h now2 (published_at a)) \<and>
   cards (appendArticle h p a) (next_node p) = createArticleCard h (clock p) a \<and>
   (clock p = clock p' \<longrightarrow>
      cards (appendArticle h p a) (next_node p) = cards (appendArticle h p' a) (next_node p'))"
proof (intro conjI impI)
  show "(createArticleCard h now1 a = createArticleCard h now2 a) =
     (formatTimeAgo h now1 (published_at a) = formatTimeAgo h now2 (published_at a))"
    by (rule createArticleCard_eq_iff)
  show stored: "cards (appendArticle h q a) (next_node q) = createArticleCard h (clock q) a"
    for q
    by (simp add: appendArticle_def Let_def)
  assume "clock p = clock p'"
  then show "cards (appendArticle h p a) (next_node p) =
      cards (appendArticle h p' a) (next_node p')"
    by (simp add: stored)
qed

text \<open>A run of the amended C6: two pages that agree on the clock only.\<close>

theorem createArticleCard_depends_on_time_only_witness:
  "clock page0 = clock page_after_load \<and>
   cards (appendArticle host0 page0 article0) (next_node page0) =
     cards (appendArticle host0 page_after_load article0) (next_node page_after_load)"
proof -
  have c: "clock page0 = clock page_after_load"
    by (simp add: page_after_load_def loadMoreBtn_response_def loadMoreBtn_click_def
        page1_def initializeLanguageFilter_def page0_def pushState_def appendArticle_def Let_def)
  with createArticleCard_depends_on_time_only [of host0 0 article0 0 page0 page_after_load]
  show ?thesis by blast
qed

section \<open>Properties of the URL and of pagination\<close>

lemma get_delete_same [simp]: "searchParams_get n (searchParams_delete n ps) = None"
  by (induction ps) (auto simp: searchParams_get_def searchParams_delete_def)

lemma get_delete_other [simp]:
  "k \<noteq> n \<Longrightarrow> searchParams_get k (searchParams_delete n ps) = searchParams_get k ps"
  by (induction ps) (auto simp: searchParams_get_def searchParams_delete_def)

lemma get_set_same [simp]: "searchParams_get n (searchParams_set n v ps) = Some v"
  by (induction ps) (auto simp: searchParams_get_def)

lemma get_set_other [simp]:
  "k \<noteq> n \<Longrightarrow> searchParams_get k (searchParams_set n v ps) = searchParams_get k ps"
proof (induction ps)
  case Nil
  then show ?case by (simp add: searchParams_get_def)
next
  case (Cons kv ps)
  show ?case
  proof (cases "fst kv = n")
    case True
    have "searchParams_get k ((n, v) # searchParams_delete n ps) =
          searchParams_get k (searchParams_delete n ps)"
      using Cons.prems by (simp add: searchParams_get_def)
    also have "\<dots> = searchParams_get k ps"
      using Cons.prems by simp
    also have "\<dots> = searchParams_get k (kv # ps)"
      using Cons.prems True by (cases kv) (auto simp: searchParams_get_def)
    finally show ?thesis using True by simp
  next
    case False
    then show ?thesis
      using Cons by (cases kv) (auto simp: searchParams_get_def)
  qed
qed

lemma filterCard_frame [simp]:
  "location (filterCard s p i) = location p"
  "history_back (filterCard s p i) = history_back p"
  "reload_requested (filterCard s p i) = reload_requested p"
  "clock (filterCard s p i) = clock p"
  "articleCards (filterCard s p i) = articleCards p"
  "dom_cards (filterCard s p i) = dom_cards p"
  "articleCount (filterCard s p i) = articleCount p"
  "languageButtons (filterCard s p i) = languageButtons p"
  by (simp_all add: filterCard_def Let_def setTimeout_def)

lemma filterCards_fold_frame [simp]:
  "location (foldl (filterCard s) p is) = location p"
  "history_back (foldl (filterCard s) p is) = history_back p"
  "reload_requested (foldl (filterCard s) p is) = reload_requested p"
  "clock (foldl (filterCard s) p is) = clock p"
  "articleCards (foldl (filterCard s) p is) = articleCards p"
  "dom_cards (foldl (filterCard s) p is) = dom_cards p"
  by (induction "is" arbitrary: p) simp_all

lemma updateArticleCount_frame [simp]:
  "cards (updateArticleCount s p) = cards p"
  "timers (updateArticleCount s p) = timers p"
  "clock (updateArticleCount s p) = clock p"
  "location (updateArticleCount s p) = location p"
  "history_back (updateArticleCount s p) = history_back p"
  by (simp_all add: updateArticleCount_def Let_def split: option.splits)

lemma filterCard_buttons:
  "filterCard s (p\<lparr>languageButtons := bs\<rparr>) j = (filterCard s p j)\<lparr>languageButtons := bs\<rparr>"
  by (simp add: filterCard_def Let_def setTimeout_def)

lemma filterCards_fold_buttons:
  "foldl (filterCard s) (p\<lparr>languageButtons := bs\<rparr>) js =
     (foldl (filterCard s) p js)\<lparr>languageButtons := bs\<rparr>"
  by (induction js arbitrary: p) (simp_all add: filterCard_buttons)

lemma filterCards_buttons:
  "filterCards s (p\<lparr>languageButtons := bs\<rparr>) = (filterCards s p)\<lparr>languageButtons := bs\<rparr>"
  by (simp add: filterCards_def filterCards_fold_buttons)

lemma page1_fields:
  "location page1 = []" "history_back page1 = []" "clock page1 = 0" "timers page1 = []"
  "articleCards page1 = [0, 1]" "dom_cards page1 = [0, 1]" "next_node page1 = 2"
  "articlesGrid page1"
  "languageButtons page1 =
     [language_button ''all'', language_button ''en'', language_button ''rw'']"
  by (simp_all add: page1_def initializeLanguageFilter_def page0_def)

text \<open>
  Claim C3 fails as stated, in two ways. The dropdown handler calls \<open>pushState\<close>: the URL
  it leaves is a new history entry and the previous one stays behind it, so nothing is
  replaced. The handler of the language buttons does not touch the URL: after a click on
  the "en" button the URL still has no language parameter.
\<close>

theorem language_url_counterexample:
  "history_back page1 = [] \<and>
   history_back (languageFilter_change ''en'' page1) = [location page1] \<and>
   dataset_language (languageButtons page1 ! 1) = Some ''en'' \<and>
   searchParams_get ''language'' (location (languageButton_click 1 page1)) = None"
proof -
  have "history_back (languageFilter_change ''en'' page1) = [location page1]"
    by (simp add: languageFilter_change_def Let_def pushState_def filterCards_def page1_fields)
  moreover have "dataset_language (languageButtons page1 ! 1) = Some ''en''"
    by (simp add: page1_fields language_button_def createElement_def)
  moreover have "location (languageButton_click 1 page1) = []"
    by (simp add: languageButton_click_def Let_def filterCards_buttons page1_fields)
      (simp add: filterCards_def page1_fields)
  ultimately show ?thesis
    by (simp add: page1_fields searchParams_get_def)
qed

text \<open>
  Claim C3, as amended. After every selection \<open>s\<close> in the language dropdown the handler
  pushes a new history entry and does not reload the page: the new URL has no \<open>language\<close>
  parameter when \<open>s\<close> is "all" and has \<open>language\<close> set to \<open>s\<close> otherwise, every other
  parameter reads as before, and the previous URL is the entry behind the new one.
\<close>

theorem languageFilter_change_pushes_url:
  "(let p' = languageFilter_change s p in
      searchParams_get ''language'' (location p') = (if s = ''all'' then None else Some s) \<and>
      (\<forall>k. k \<noteq> ''language'' \<longrightarrow>
         searchParams_get k (location p') = searchParams_get k (location p)) \<and>
      history_back p' = history_back p @ [location p] \<and>
      reload_requested p' = reload_requested p)"
proof -
  let ?p1 = "filterCards (Some s) p"
  let ?url = "if s = ''all'' then searchParams_delete ''language'' (location p)
              else searchParams_set ''language'' s (location p)"
  have frame: "location (filterCards sel p) = location p"
    "history_back (filterCards sel p) = history_back p"
    "reload_requested (filterCards sel p) = reload_requested p" for sel
    by (simp_all add: filterCards_def)
  have p': "languageFilter_change s p = pushState ?url ?p1"
    by (simp add: languageFilter_change_def Let_def frame)
  have loc: "location (languageFilter_change s p) = ?url"
    and hist: "history_back (languageFilter_change s p) = history_back p @ [location p]"
    and reload: "reload_requested (languageFilter_change s p) = reload_requested p"
    by (simp_all add: p' pushState_def frame)
  have lang: "searchParams_get ''language'' ?url = (if s = ''all'' then None else Some s)"
    by simp
  have others: "searchParams_get k ?url = searchParams_get k (location p)"
    if "k \<noteq> ''language''" for k
    using that by simp
  show ?thesis
    unfolding Let_def loc using lang others hist reload by blast
qed

text \<open>A run of the amended C3: "en" is selected on a URL that has a page parameter.\<close>

theorem languageFilter_change_pushes_url_witness:
  "''page'' \<noteq> ''language'' \<and>
   searchParams_get ''language''
     (location (languageFilter_change ''en'' (page1\<lparr>location := [(''page'', ''2'')]\<rparr>))) = Some ''en'' \<and>
   searchParams_get ''page''
     (location (languageFilter_change ''en'' (page1\<lparr>location := [(''page'', ''2'')]\<rparr>))) = Some ''2'' \<and>
   history_back (languageFilter_change ''en'' (page1\<lparr>location := [(''page'', ''2'')]\<rparr>)) =
     [[(''page'', ''2'')]]"
proof -
  have ne: "''page'' \<noteq> ''language''"
    by simp
  have "searchParams_get ''page'' [(''page'', ''2'')] = Some ''2''"
    by (simp add: searchParams_get_def)
  with languageFilter_change_pushes_url [of "''en''" "page1\<lparr>location := [(''page'', ''2'')]\<rparr>"] ne
  show ?thesis
    by (simp add: Let_def page1_fields)
qed

lemma appendArticle_frame [simp]:
  "loadMoreBtn (appendArticle h p a) = loadMoreBtn p"
  "location (appendArticle h p a) = location p"
  "history_back (appendArticle h p a) = history_back p"
  "clock (appendArticle h p a) = clock p"
  "timers (appendArticle h p a) = timers p"
  "articleCards (appendArticle h p a) = articleCards p"
  by (simp_all add: appendArticle_def Let_def)

lemma appendArticles_frame [simp]:
  "loadMoreBtn (foldl (appendArticle h) p as) = loadMoreBtn p"
  "location (foldl (appendArticle h) p as) = location p"
  "history_back (foldl (appendArticle h) p as) = history_back p"
  "clock (foldl (appendArticle h) p as) = clock p"
  "timers (foldl (appendArticle h) p as) = timers p"
  "articleCards (foldl (appendArticle h) p as) = articleCards p"
  by (induction as arbitrary: p) simp_all









section \<open>Timers and notifications\<close>



lemma fire_timers_mono: "set (timers q) \<subseteq> set (timers (fire a q))"
  by (cases a) (auto simp: Let_def setTimeout_def)

lemma fire_clock [simp]: "clock (fire a q) = clock q"
  by (cases a) (simp_all add: Let_def setTimeout_def)



lemma fires_timers_mono:
  "set (timers q) \<subseteq> set (timers (foldl (\<lambda>q e. fire (snd e) q) q es))"
proof (induction es arbitrary: q)
  case Nil
  then show ?case by simp
next
  case (Cons e es)
  have "set (timers q) \<subseteq> set (timers (fire (snd e) q))"
    by (rule fire_timers_mono)
  also have "\<dots> \<subseteq> set (timers (foldl (\<lambda>q e. fire (snd e) q) (fire (snd e) q) es))"
    by (rule Cons.IH)
  finally show ?case by simp
qed

lemma fires_clock [simp]: "clock (foldl (\<lambda>q e. fire (snd e) q) q es) = clock q"
  by (induction es arbitrary: q) simp_all

lemma tick_clock [simp]: "clock (tick p) = clock p + 1"
  by (simp add: tick_def Let_def)

lemma advance_clock [simp]: "clock (advance n p) = clock p + int n"
  by (induction n arbitrary: p) simp_all





lemma showNotification_notifications:
  "notifications (showNotification message type p) =
     [(next_node p,
       createElement\<lparr>className := ''notification '' @ type,
                     innerHTML := notification_html message type\<rparr>)]"
  by (simp add: showNotification_def Let_def setTimeout_def)

lemma showNotification_timers:
  "timers (showNotification message type p) = timers p @ [(clock p + 5000, AutoRemove (next_node p))]"
  by (simp add: showNotification_def Let_def setTimeout_def)



lemma tick_keeps_timer:
  assumes "e \<in> set (timers p)" and "\<not> fst e \<le> clock p + 1"
  shows "e \<in> set (timers (tick p))"
proof -
  let ?p1 = "p\<lparr>clock := clock p + 1, timers := filter (\<lambda>e. \<not> fst e \<le> clock p + 1) (timers p)\<rparr>"
  have "e \<in> set (timers ?p1)" using assms by simp
  then show ?thesis
    unfolding tick_def Let_def using fires_timers_mono by blast
qed





lemma showNotification_frame:
  "searchResults (showNotification message type p) = searchResults p"
  "console (showNotification message type p) = console p"
  "clock (showNotification message type p) = clock p"
  "fetchNewsBtn (showNotification message type p) = fetchNewsBtn p"
  "loadMoreBtn (showNotification message type p) = loadMoreBtn p"
  "location (showNotification message type p) = location p"
  "history_back (showNotification message type p) = history_back p"
  "cards (showNotification message type p) = cards p"
  "dom_cards (showNotification message type p) = dom_cards p"
  "reload_requested (showNotification message type p) = reload_requested p"
  by (simp_all add: showNotification_def Let_def setTimeout_def)

lemma fire_searchResults [simp]: "searchResults (fire a q) = searchResults q"
  by (cases a) (simp_all add: Let_def setTimeout_def)

lemma fires_searchResults [simp]:
  "searchResults (foldl (\<lambda>q e. fire (snd e) q) q es) = searchResults q"
  by (induction es arbitrary: q) simp_all

lemma tick_searchResults [simp]: "searchResults (tick p) = searchResults p"
  by (simp add: tick_def Let_def)

lemma advance_searchResults [simp]: "searchResults (advance n p) = searchResults p"
  by (induction n arbitrary: p) simp_all


lemma fire_reload_mono: "reload_requested q \<Longrightarrow> reload_requested (fire a q)"
  by (cases a) (simp_all add: Let_def setTimeout_def)

lemma fires_reload_mono:
  "reload_requested q \<Longrightarrow> reload_requested (foldl (\<lambda>q e. fire (snd e) q) q es)"
  by (induction es arbitrary: q) (simp_all add: fire_reload_mono)

lemma tick_reload_mono: "reload_requested p \<Longrightarrow> reload_requested (tick p)"
  by (simp add: tick_def Let_def fires_reload_mono)

lemma advance_reload_mono: "reload_requested p \<Longrightarrow> reload_requested (advance n p)"
  by (induction n arbitrary: p) (simp_all add: tick_reload_mono)

lemma fires_countdown_zero:
  "(d, Countdown 0) \<in> set es \<Longrightarrow> reload_requested (foldl (\<lambda>q e. fire (snd e) q) q es)"
proof (induction es arbitrary: q)
  case Nil
  then show ?case by simp
next
  case (Cons e es)
  show ?case
  proof (cases "e = (d, Countdown 0)")
    case True
    have "reload_requested (fire (Countdown 0) q)"
      by (simp add: Let_def)
    then have "reload_requested (foldl (\<lambda>q e. fire (snd e) q) (fire (Countdown 0) q) es)"
      by (rule fires_reload_mono)
    then show ?thesis using True by simp
  next
    case False
    with Cons.prems have "(d, Countdown 0) \<in> set es" by simp
    from Cons.IH [OF this, of "fire (snd e) q"] show ?thesis by simp
  qed
qed

lemma fires_countdown_pos:
  "(d, Countdown c) \<in> set es \<Longrightarrow> 0 < c \<Longrightarrow>
     (clock q + 1000, Countdown (c - 1)) \<in> set (timers (foldl (\<lambda>q e. fire (snd e) q) q es))"
proof (induction es arbitrary: q)
  case Nil
  then show ?case by simp
next
  case (Cons e es)
  show ?case
  proof (cases "e = (d, Countdown c)")
    case True
    have "(clock q + 1000, Countdown (c - 1)) \<in> set (timers (fire (Countdown c) q))"
      using Cons.prems(2) by (simp add: Let_def setTimeout_def)
    then have "(clock q + 1000, Countdown (c - 1))
        \<in> set (timers (foldl (\<lambda>q e. fire (snd e) q) (fire (Countdown c) q) es))"
      using fires_timers_mono by blast
    then show ?thesis using True by simp
  next
    case False
    with Cons.prems have "(d, Countdown c) \<in> set es" by simp
    from Cons.IH [OF this Cons.prems(2), of "fire (snd e) q"] show ?thesis by simp
  qed
qed

lemma tick_countdown_zero:
  assumes "(d, Countdown 0) \<in> set (timers p)" and "d \<le> clock p + 1"
  shows "reload_requested (tick p)"
  unfolding tick_def Let_def
  by (rule fires_countdown_zero [of d]) (use assms in simp)

lemma tick_countdown_pos:
  assumes "(d, Countdown c) \<in> set (timers p)" and "0 < c" and "d \<le> clock p + 1"
  shows "(clock (tick p) + 1000, Countdown (c - 1)) \<in> set (timers (tick p))"
proof -
  let ?p1 = "p\<lparr>clock := clock p + 1,
               timers := filter (\<lambda>e. \<not> fst e \<le> clock p + 1) (timers p)\<rparr>"
  let ?es = "filter (\<lambda>e. fst e \<le> clock p + 1) (timers p)"
  have "(d, Countdown c) \<in> set ?es"
    using assms by simp
  from fires_countdown_pos [OF this assms(2), of ?p1]
  show ?thesis
    unfolding tick_def Let_def fires_clock .
qed

lemma advance_countdown:
  "(d, Countdown c) \<in> set (timers p) \<Longrightarrow> 0 \<le> c \<Longrightarrow> clock p < d \<Longrightarrow>
     d + 1000 * c \<le> clock p + int k \<Longrightarrow> reload_requested (advance k p)"
proof (induction k arbitrary: p d c)
  case 0
  then show ?case by simp
next
  case (Suc k)
  show ?case
  proof (cases "d \<le> clock p + 1")
    case True
    then have d: "d = clock p + 1" using Suc.prems(3) by simp
    show ?thesis
    proof (cases "c = 0")
      case True
      then have "reload_requested (tick p)"
        using tick_countdown_zero [of d p] Suc.prems(1) \<open>d \<le> clock p + 1\<close> by simp
      then show ?thesis by (simp add: advance_reload_mono)
    next
      case False
      then have pos: "0 < c" using Suc.prems(2) by simp
      have "(clock (tick p) + 1000, Countdown (c - 1)) \<in> set (timers (tick p))"
        by (rule tick_countdown_pos [OF Suc.prems(1) pos \<open>d \<le> clock p + 1\<close>])
      moreover have "0 \<le> c - 1" using pos by simp
      moreover have "clock (tick p) < clock (tick p) + 1000" by simp
      moreover have "clock (tick p) + 1000 + 1000 * (c - 1) \<le> clock (tick p) + int k"
        using Suc.prems(4) d by (simp add: algebra_simps)
      ultimately have "reload_requested (advance k (tick p))"
        by (rule Suc.IH)
      then show ?thesis by simp
    qed
  next
    case False
    then have "(d, Countdown c) \<in> set (timers (tick p))"
      using Suc.prems(1) tick_keeps_timer [of "(d, Countdown c)" p] by simp
    moreover have "clock (tick p) < d" using False by simp
    moreover have "d + 1000 * c \<le> clock (tick p) + int k"
      using Suc.prems(4) by simp
    ultimately have "reload_requested (advance k (tick p))"
      by (rule Suc.IH [OF _ Suc.prems(2)])
    then show ?thesis by simp
  qed
qed

lemma fetchNow_reload:
  "reload_requested (advance 31000 (fetchNewsBtn_response label (Json data) p))"
proof -
  let ?q = "fetchNewsBtn_response label (Json data) p"
  have "(clock ?q + 1000, Countdown 30) \<in> set (timers ?q)"
    by (simp add: fetchNewsBtn_response_def setTimeout_def showNotification_frame)
  moreover have "clock ?q + 1000 + 1000 * 30 \<le> clock ?q + int 31000" by simp
  ultimately show ?thesis
    using advance_countdown [of "clock ?q + 1000" 30 ?q 31000] by simp
qed




text \<open>
  Claim C7 fails as stated: the handler parses the body of the response. A POST that
  succeeds with a body that is not JSON ends in the \<open>catch\<close> branch, which shows the error
  notification and starts no countdown.
\<close>

theorem fetchNow_counterexample:
  "notifications (fetchNewsBtn_response ''Fetch News'' (NotJson :: unit fetched) page1) =
     [(2, createElement
            \<lparr>className := ''notification error'',
             innerHTML :=
               notification_html ''Error starting news fetch. Please try again.'' ''error''\<rparr>)] \<and>
   timers (fetchNewsBtn_response ''Fetch News'' (NotJson :: unit fetched) page1) =
     [(5000, AutoRemove 2)]"
  by (simp add: fetchNewsBtn_response_def showNotification_def Let_def setTimeout_def
      page1_fields)

text \<open>
  Claim C7, as amended. For every fetch-now click whose POST succeeds with a body that
  parses as JSON, the success notification is shown whatever the parsed body holds, and
  then the countdown is started at 30, with its first tick a second later; it requests
  the reload of the page within 31 seconds. The parsed body is not used. When the request
  is rejected or the body is not JSON, the error notification is shown, the button gets
  its label back and is enabled, and no countdown is started.
\<close>

theorem fetchNow_success_starts_countdown:
  "(let p' = fetchNewsBtn_response label (Json data) p in
      notifications p' =
        [(next_node p,
          createElement
            \<lparr>className := ''notification success'',
             innerHTML :=
               notification_html ''Started fetching latest news! This may take a moment.''
                 ''success''\<rparr>)] \<and>
      timers p' =
        timers p @ [(clock p + 5000, AutoRemove (next_node p)), (clock p + 1000, Countdown 30)] \<and>
      fetchNewsBtn p' = fetchNewsBtn p \<and>
      console p' = console p \<and>
      reload_requested (advance 31000 p')) \<and>
   (let p' = fetchNewsBtn_response label (NotJson :: 'a fetched) p in
      notifications p' =
        [(next_node p,
          createElement
            \<lparr>className := ''notification error'',
             innerHTML :=
               notification_html ''Error starting news fetch. Please try again.''
                 ''error''\<rparr>)] \<and>
      timers p' = timers p @ [(clock p + 5000, AutoRemove (next_node p))] \<and>
      fetchNewsBtn p' = (fetchNewsBtn p)\<lparr>innerHTML := label, disabled := False\<rparr> \<and>
      console p' = console p @ [''Fetch error:'']) \<and>
   fetchNewsBtn_response label (Rejected :: 'a fetched) p =
     fetchNewsBtn_response label (NotJson :: 'a fetched) p"
  using fetchNow_reload [of label data p]
  by (simp add: fetchNewsBtn_response_def Let_def showNotification_frame setTimeout_def
      showNotification_notifications showNotification_timers)

section \<open>Properties of the language filter\<close>

lemma fire_display:
  "display (cards (fire a q) i) = (if a = Hide i then ''none'' else display (cards q i))"
  by (cases a) (auto simp: Let_def setTimeout_def)

lemma fire_opacity:
  "opacity (cards (fire a q) i) = (if a = FadeIn i then ''1'' else opacity (cards q i))"
  by (cases a) (auto simp: Let_def setTimeout_def)

lemma fire_timers_card:
  "a' = Hide i \<or> a' = FadeIn i \<Longrightarrow>
     ((d, a') \<in> set (timers (fire a q))) = ((d, a') \<in> set (timers q))"
  by (cases a) (auto simp: Let_def setTimeout_def)

lemma fires_display:
  "display (cards (foldl (\<lambda>q e. fire (snd e) q) q es) i) =
     (if \<exists>d. (d, Hide i) \<in> set es then ''none'' else display (cards q i))"
proof (induction es arbitrary: q)
  case Nil
  then show ?case by simp
next
  case (Cons e es)
  show ?case
    by (cases e) (auto simp: Cons.IH fire_display)
qed

lemma fires_opacity:
  "opacity (cards (foldl (\<lambda>q e. fire (snd e) q) q es) i) =
     (if \<exists>d. (d, FadeIn i) \<in> set es then ''1'' else opacity (cards q i))"
proof (induction es arbitrary: q)
  case Nil
  then show ?case by simp
next
  case (Cons e es)
  show ?case
    by (cases e) (auto simp: Cons.IH fire_opacity)
qed

lemma fires_timers_card:
  "a' = Hide i \<or> a' = FadeIn i \<Longrightarrow>
     ((d, a') \<in> set (timers (foldl (\<lambda>q e. fire (snd e) q) q es))) = ((d, a') \<in> set (timers q))"
  by (induction es arbitrary: q) (simp_all add: fire_timers_card)

lemma tick_display:
  "display (cards (tick p) i) =
     (if \<exists>d. (d, Hide i) \<in> set (timers p) \<and> d \<le> clock p + 1 then ''none''
      else display (cards p i))"
  by (auto simp: tick_def Let_def fires_display)

lemma tick_opacity:
  "opacity (cards (tick p) i) =
     (if \<exists>d. (d, FadeIn i) \<in> set (timers p) \<and> d \<le> clock p + 1 then ''1''
      else opacity (cards p i))"
  by (auto simp: tick_def Let_def fires_opacity)

lemma tick_timers_card:
  "a' = Hide i \<or> a' = FadeIn i \<Longrightarrow>
     ((d, a') \<in> set (timers (tick p))) = ((d, a') \<in> set (timers p) \<and> \<not> d \<le> clock p + 1)"
  by (simp add: tick_def Let_def fires_timers_card)

lemma if_or_chain: "(if A then x else if B then x else y) = (if A \<or> B then x else y)"
  by simp

lemma due_split:
  fixes c :: int
  shows "(\<exists>d. (d, a) \<in> T \<and> d \<le> c + int (Suc n)) =
     ((0 < n \<and> (\<exists>d. (d, a) \<in> T \<and> \<not> d \<le> c + 1 \<and> d \<le> c + 1 + int n))
      \<or> (\<exists>d. (d, a) \<in> T \<and> d \<le> c + 1))"
proof
  assume "\<exists>d. (d, a) \<in> T \<and> d \<le> c + int (Suc n)"
  then obtain d where d: "(d, a) \<in> T" "d \<le> c + int (Suc n)"
    by blast
  show "(0 < n \<and> (\<exists>d. (d, a) \<in> T \<and> \<not> d \<le> c + 1 \<and> d \<le> c + 1 + int n))
      \<or> (\<exists>d. (d, a) \<in> T \<and> d \<le> c + 1)"
  proof (cases "d \<le> c + 1")
    case True
    with d(1) show ?thesis by blast
  next
    case False
    with d(2) have "0 < n" by (cases n) simp_all
    moreover have "(d, a) \<in> T \<and> \<not> d \<le> c + 1 \<and> d \<le> c + 1 + int n"
      using d False by simp
    ultimately show ?thesis by blast
  qed
next
  assume "(0 < n \<and> (\<exists>d. (d, a) \<in> T \<and> \<not> d \<le> c + 1 \<and> d \<le> c + 1 + int n))
      \<or> (\<exists>d. (d, a) \<in> T \<and> d \<le> c + 1)"
  then obtain d where "(d, a) \<in> T" and "d \<le> c + 1 + int n"
    by fastforce
  then have "(d, a) \<in> T \<and> d \<le> c + int (Suc n)" by simp
  then show "\<exists>d. (d, a) \<in> T \<and> d \<le> c + int (Suc n)" ..
qed

lemma advance_display:
  "display (cards (advance n p) i) =
     (if 0 < n \<and> (\<exists>d. (d, Hide i) \<in> set (timers p) \<and> d \<le> clock p + int n) then ''none''
      else display (cards p i))"
proof (induction n arbitrary: p)
  case 0
  show ?case by simp
next
  case (Suc n)
  have "display (cards (advance (Suc n) p) i) = display (cards (advance n (tick p)) i)"
    by simp
  also have "\<dots> =
     (if 0 < n \<and> (\<exists>d. (d, Hide i) \<in> set (timers (tick p)) \<and> d \<le> clock (tick p) + int n)
      then ''none'' else display (cards (tick p) i))"
    by (rule Suc.IH)
  also have "\<dots> =
     (if 0 < n \<and> (\<exists>d. (d, Hide i) \<in> set (timers p) \<and> \<not> d \<le> clock p + 1
                       \<and> d \<le> clock p + 1 + int n) then ''none''
      else if \<exists>d. (d, Hide i) \<in> set (timers p) \<and> d \<le> clock p + 1 then ''none''
      else display (cards p i))"
    by (simp only: tick_display tick_timers_card [of "Hide i" i, simplified] tick_clock conj_assoc)
  also have "\<dots> =
     (if \<exists>d. (d, Hide i) \<in> set (timers p) \<and> d \<le> clock p + int (Suc n) then ''none''
      else display (cards p i))"
    by (simp only: if_or_chain due_split [symmetric])
  finally show ?case by simp
qed

lemma advance_opacity:
  "opacity (cards (advance n p) i) =
     (if 0 < n \<and> (\<exists>d. (d, FadeIn i) \<in> set (timers p) \<and> d \<le> clock p + int n) then ''1''
      else opacity (cards p i))"
proof (induction n arbitrary: p)
  case 0
  show ?case by simp
next
  case (Suc n)
  have "opacity (cards (advance (Suc n) p) i) = opacity (cards (advance n (tick p)) i)"
    by simp
  also have "\<dots> =
     (if 0 < n \<and> (\<exists>d. (d, FadeIn i) \<in> set (timers (tick p)) \<and> d \<le> clock (tick p) + int n)
      then ''1'' else opacity (cards (tick p) i))"
    by (rule Suc.IH)
  also have "\<dots> =
     (if 0 < n \<and> (\<exists>d. (d, FadeIn i) \<in> set (timers p) \<and> \<not> d \<le> clock p + 1
                       \<and> d \<le> clock p + 1 + int n) then ''1''
      else if \<exists>d. (d, FadeIn i) \<in> set (timers p) \<and> d \<le> clock p + 1 then ''1''
      else opacity (cards p i))"
    by (simp only: tick_opacity tick_timers_card [of "FadeIn i" i, simplified] tick_clock conj_assoc)
  also have "\<dots> =
     (if \<exists>d. (d, FadeIn i) \<in> set (timers p) \<and> d \<le> clock p + int (Suc n) then ''1''
      else opacity (cards p i))"
    by (simp only: if_or_chain due_split [symmetric])
  finally show ?case by simp
qed

lemma filterCard_language [simp]:
  "dataset_language (cards (filterCard s p j) i) = dataset_language (cards p i)"
  by (simp add: filterCard_def Let_def setTimeout_def)

lemma filterCard_display:
  "display (cards (filterCard s p j) i) =
     (if i = j \<and> (s = Some ''all'' \<or> dataset_language (cards p j) = s) then ''block''
      else display (cards p i))"
  by (simp add: filterCard_def Let_def setTimeout_def)

lemma filterCard_opacity:
  "opacity (cards (filterCard s p j) i) =
     (if i = j \<and> \<not> (s = Some ''all'' \<or> dataset_language (cards p j) = s) then ''0''
      else opacity (cards p i))"
  by (simp add: filterCard_def Let_def setTimeout_def)

lemma filterCard_hide:
  "((d, Hide i) \<in> set (timers (filterCard s p j))) =
     ((d, Hide i) \<in> set (timers p) \<or>
      (i = j \<and> \<not> (s = Some ''all'' \<or> dataset_language (cards p j) = s) \<and> d = clock p + 300))"
  by (auto simp: filterCard_def Let_def setTimeout_def)

lemma filterCard_fadeIn:
  "((d, FadeIn i) \<in> set (timers (filterCard s p j))) =
     ((d, FadeIn i) \<in> set (timers p) \<or>
      (i = j \<and> (s = Some ''all'' \<or> dataset_language (cards p j) = s) \<and> d = clock p + 10))"
  by (auto simp: filterCard_def Let_def setTimeout_def)

lemma filterCards_language [simp]:
  "dataset_language (cards (foldl (filterCard s) p js) i) = dataset_language (cards p i)"
  by (induction js arbitrary: p) simp_all

lemma filterCards_display:
  "display (cards (foldl (filterCard s) p js) i) =
     (if i \<in> set js \<and> (s = Some ''all'' \<or> dataset_language (cards p i) = s) then ''block''
      else display (cards p i))"
  by (induction js arbitrary: p) (auto simp: filterCard_display)

lemma filterCards_hide:
  "((d, Hide i) \<in> set (timers (foldl (filterCard s) p js))) =
     ((d, Hide i) \<in> set (timers p) \<or>
      (i \<in> set js \<and> \<not> (s = Some ''all'' \<or> dataset_language (cards p i) = s)
       \<and> d = clock p + 300))"
  by (induction js arbitrary: p) (auto simp: filterCard_hide)

lemma filterCards_fadeIn:
  "((d, FadeIn i) \<in> set (timers (foldl (filterCard s) p js))) =
     ((d, FadeIn i) \<in> set (timers p) \<or>
      (i \<in> set js \<and> (s = Some ''all'' \<or> dataset_language (cards p i) = s)
       \<and> d = clock p + 10))"
  by (induction js arbitrary: p) (auto simp: filterCard_fadeIn)

lemma filterCards_settled:
  assumes "i \<in> set (articleCards p)" and "\<forall>d. (d, Hide i) \<notin> set (timers p)" and "300 \<le> n"
    and q: "cards q = cards (filterCards s p)" "timers q = timers (filterCards s p)"
      "clock q = clock p"
  shows "display (cards (advance n q) i) =
           (if s = Some ''all'' \<or> dataset_language (cards p i) = s then ''block'' else ''none'')"
    and "s = Some ''all'' \<or> dataset_language (cards p i) = s \<Longrightarrow>
           opacity (cards (advance n q) i) = ''1''"
proof -
  have n: "0 < n" "clock p + 300 \<le> clock p + int n" "clock p + 10 \<le> clock p + int n"
    using assms(3) by simp_all
  show "display (cards (advance n q) i) =
           (if s = Some ''all'' \<or> dataset_language (cards p i) = s then ''block'' else ''none'')"
  proof (cases "s = Some ''all'' \<or> dataset_language (cards p i) = s")
    case True
    then have "\<not> (\<exists>d. (d, Hide i) \<in> set (timers q) \<and> d \<le> clock q + int n)"
      using assms(2) by (simp add: q filterCards_def filterCards_hide)
    moreover have "display (cards q i) = ''block''"
      using True assms(1) by (simp add: q filterCards_def filterCards_display)
    ultimately show ?thesis
      using True by (simp add: advance_display)
  next
    case False
    then have "(clock p + 300, Hide i) \<in> set (timers q)"
      using assms(1) by (simp add: q filterCards_def filterCards_hide)
    then have "\<exists>d. (d, Hide i) \<in> set (timers q) \<and> d \<le> clock q + int n"
      using n(2) q(3) by auto
    then show ?thesis
      using False n(1) by (simp add: advance_display)
  qed
  show "opacity (cards (advance n q) i) = ''1''"
    if "s = Some ''all'' \<or> dataset_language (cards p i) = s"
  proof -
    have "(clock p + 10, FadeIn i) \<in> set (timers q)"
      using that assms(1) by (simp add: q filterCards_def filterCards_fadeIn)
    then have "\<exists>d. (d, FadeIn i) \<in> set (timers q) \<and> d \<le> clock q + int n"
      using n(3) q(3) by auto
    then show ?thesis
      using n(1) by (simp add: advance_opacity)
  qed
qed

lemma advance_timers_card:
  "a' = Hide i \<or> a' = FadeIn i \<Longrightarrow>
     ((d, a') \<in> set (timers (advance n p))) =
       ((d, a') \<in> set (timers p) \<and> (n = 0 \<or> \<not> d \<le> clock p + int n))"
proof (induction n arbitrary: p)
  case 0
  show ?case by simp
next
  case (Suc n)
  have "((d, a') \<in> set (timers (advance (Suc n) p))) =
        ((d, a') \<in> set (timers (tick p)) \<and> (n = 0 \<or> \<not> d \<le> clock (tick p) + int n))"
    using Suc by simp
  also have "\<dots> = ((d, a') \<in> set (timers p) \<and> \<not> d \<le> clock p + int (Suc n))"
    using Suc.prems by (auto simp: tick_timers_card)
  finally show ?case by simp
qed

lemma fire_dom_cards [simp]: "dom_cards (fire a q) = dom_cards q"
  by (cases a) (simp_all add: Let_def setTimeout_def)

lemma fires_dom_cards [simp]:
  "dom_cards (foldl (\<lambda>q e. fire (snd e) q) q es) = dom_cards q"
  by (induction es arbitrary: q) simp_all

lemma advance_dom_cards [simp]: "dom_cards (advance n p) = dom_cards p"
  by (induction n arbitrary: p) (simp_all add: tick_def Let_def)

lemma page1_cards:
  "cards page1 0 = server_card ''en''" "cards page1 1 = server_card ''rw''"
  "cards page1 (Suc 0) = server_card ''rw''"
  by (simp_all add: page1_def initializeLanguageFilter_def page0_def)

lemma server_card_fields [simp]:
  "dataset_language (server_card lang) = Some lang" "display (server_card lang) = []"
  by (simp_all add: server_card_def createElement_def)

lemma page_racing_hide: "(300, Hide 0) \<in> set (timers page_racing)"
proof -
  have "(300, Hide 0) \<in> set (timers (languageFilter_change ''rw'' page1))"
    by (simp add: languageFilter_change_def Let_def pushState_def filterCards_def
        filterCard_hide page1_fields page1_cards)
  moreover have "clock (languageFilter_change ''rw'' page1) = 0"
    by (simp add: languageFilter_change_def Let_def pushState_def filterCards_def page1_fields)
  ultimately show ?thesis
    by (simp add: page_racing_def advance_timers_card)
qed

lemma page_racing_clock: "clock page_racing = 100"
  by (simp add: page_racing_def languageFilter_change_def Let_def pushState_def filterCards_def
      page1_fields)

lemma page_after_load_fields:
  "dom_cards page_after_load = [0, 1, 2]" "articleCards page_after_load = [0, 1]"
  "timers page_after_load = []" "clock page_after_load = 0"
  "cards page_after_load 2 = createArticleCard host0 0 article0"
  "cards page_after_load 0 = server_card ''en''"
  "cards page_after_load 1 = server_card ''rw''"
  "cards page_after_load (Suc 0) = server_card ''rw''"
  by (simp_all add: page_after_load_def loadMoreBtn_response_def loadMoreBtn_click_def
      page1_fields page1_cards pushState_def appendArticle_def Let_def)

text \<open>
  Claim C1 fails as stated, in two ways. The hiding callback of a selection is never
  cancelled: when "rw" is selected and "all" 100 ms later, the callback of the first
  selection hides the English card 200 ms after the second, and it stays hidden although
  "all" is selected. And the handlers walk the node list taken when the page was
  initialised: a Kinyarwanda card that load-more appended is in the document when "en" is
  selected, and it is still displayed 300 ms later.
\<close>

theorem language_filter_counterexample:
  "0 \<in> set (dom_cards page_racing) \<and>
   display (cards (advance 300 (languageFilter_change ''all'' page_racing)) 0) = ''none'' \<and>
   2 \<in> set (dom_cards page_after_load) \<and>
   dataset_language (cards page_after_load 2) = Some ''rw'' \<and>
   display (cards (advance 300 (languageFilter_change ''en'' page_after_load)) 2) = []"
proof -
  have dom: "0 \<in> set (dom_cards page_racing)"
    by (simp add: page_racing_def languageFilter_change_def Let_def pushState_def
        filterCards_def page1_fields)
  let ?r = "languageFilter_change ''all'' page_racing"
  have "(300, Hide 0) \<in> set (timers ?r)"
    using page_racing_hide
    by (simp add: languageFilter_change_def Let_def pushState_def filterCards_def filterCards_hide
        del: foldl_Cons)
  moreover have "clock ?r = 100"
    by (simp add: languageFilter_change_def Let_def pushState_def filterCards_def
        page_racing_clock)
  ultimately have "\<exists>d. (d, Hide 0) \<in> set (timers ?r) \<and> d \<le> clock ?r + int 300"
    by (intro exI [of _ 300]) simp
  then have race: "display (cards (advance 300 ?r) 0) = ''none''"
    by (simp add: advance_display)
  let ?e = "languageFilter_change ''en'' page_after_load"
  have "\<not> (\<exists>d. (d, Hide 2) \<in> set (timers ?e) \<and> d \<le> clock ?e + int 300)"
    by (simp add: languageFilter_change_def Let_def pushState_def filterCards_def
        filterCard_hide page_after_load_fields)
  moreover have "display (cards ?e 2) = []"
    by (simp add: languageFilter_change_def Let_def pushState_def filterCards_def
        filterCard_display page_after_load_fields createArticleCard_def createElement_def)
  ultimately have late: "display (cards (advance 300 ?e) 2) = []"
    by (simp add: advance_display)
  have "dataset_language (cards page_after_load 2) = Some ''rw''"
    by (simp add: page_after_load_fields createArticleCard_def article0_def)
  with dom race late show ?thesis
    by (simp add: page_after_load_fields)
qed

text \<open>
  Claim C1, as amended. Take a card of the node list that \<open>initializeLanguageFilter\<close> keeps
  (the cards that were in the document when it ran) that has no hiding callback of an
  earlier selection pending when a selection \<open>s\<close> is made, by the dropdown or by a language
  button. From 300 ms after the selection on, as long as no other event arrives, the
  card's display is \<open>block\<close>, with opacity 1, when \<open>s\<close> is "all" or equals the card's language
  attribute, and \<open>none\<close> otherwise.
\<close>

theorem language_filter_settles:
  assumes "i \<in> set (articleCards p)" and "\<forall>d. (d, Hide i) \<notin> set (timers p)" and "300 \<le> n"
  shows "(let q = advance n (languageFilter_change s p) in
      display (cards q i) =
        (if s = ''all'' \<or> dataset_language (cards p i) = Some s then ''block'' else ''none'') \<and>
      (s = ''all'' \<or> dataset_language (cards p i) = Some s \<longrightarrow> opacity (cards q i) = ''1'')) \<and>
   (k < length (languageButtons p) \<longrightarrow>
      (let sel = dataset_language (languageButtons p ! k);
           q = advance n (languageButton_click k p) in
       display (cards q i) =
         (if sel = Some ''all'' \<or> dataset_language (cards p i) = sel then ''block'' else ''none'') \<and>
       (sel = Some ''all'' \<or> dataset_language (cards p i) = sel \<longrightarrow> opacity (cards q i) = ''1'')))"
proof -
  let ?c = "languageFilter_change s p"
  have c: "cards ?c = cards (filterCards (Some s) p)" "timers ?c = timers (filterCards (Some s) p)"
      "clock ?c = clock p"
    by (simp_all add: languageFilter_change_def Let_def pushState_def filterCards_def)
  note change = filterCards_settled [OF assms c]
  have click: "display (cards (advance n (languageButton_click k p)) i) =
         (if dataset_language (languageButtons p ! k) = Some ''all''
             \<or> dataset_language (cards p i) = dataset_language (languageButtons p ! k)
          then ''block'' else ''none'') \<and>
       (dataset_language (languageButtons p ! k) = Some ''all''
          \<or> dataset_language (cards p i) = dataset_language (languageButtons p ! k)
        \<longrightarrow> opacity (cards (advance n (languageButton_click k p)) i) = ''1'')"
    if k: "k < length (languageButtons p)"
  proof -
    let ?sel = "dataset_language (languageButtons p ! k)"
    let ?b = "languageButton_click k p"
    have b: "cards ?b = cards (filterCards ?sel p)" "timers ?b = timers (filterCards ?sel p)"
      "clock ?b = clock p"
      using k by (simp_all add: languageButton_click_def Let_def filterCards_buttons) (simp add: filterCards_def)
    from filterCards_settled [OF assms b] show ?thesis by simp
  qed
  have ch1: "display (cards (advance n ?c) i) =
        (if s = ''all'' \<or> dataset_language (cards p i) = Some s then ''block'' else ''none'')"
    using change(1) by simp
  have ch2: "opacity (cards (advance n ?c) i) = ''1''"
    if "s = ''all'' \<or> dataset_language (cards p i) = Some s"
    using change(2) that by simp
  show ?thesis
    unfolding Let_def using ch1 ch2 click by blast
qed

text \<open>
  A run of the amended C1 on the Kinyarwanda card of the concrete page: "en" by the
  dropdown, "rw" by the dropdown, "en" by its button.
\<close>

theorem language_filter_settles_witness:
  "1 \<in> set (articleCards page1) \<and> (\<forall>d. (d, Hide 1) \<notin> set (timers page1)) \<and>
   (300 :: nat) \<le> 300 \<and> 1 < length (languageButtons page1) \<and>
   display (cards (advance 300 (languageFilter_change ''en'' page1)) 1) = ''none'' \<and>
   display (cards (advance 300 (languageFilter_change ''rw'' page1)) 1) = ''block'' \<and>
   opacity (cards (advance 300 (languageFilter_change ''rw'' page1)) 1) = ''1'' \<and>
   display (cards (advance 300 (languageButton_click 1 page1)) 1) = ''none''"
proof -
  have a: "1 \<in> set (articleCards page1)"
    by (simp add: page1_fields)
  have b: "\<forall>d. (d, Hide 1) \<notin> set (timers page1)"
    by (simp add: page1_fields)
  have c: "(300 :: nat) \<le> 300"
    by simp
  have k: "1 < length (languageButtons page1)"
    by (simp add: page1_fields)
  have sel: "dataset_language (languageButtons page1 ! 1) = Some ''en''"
    by (simp add: page1_fields language_button_def createElement_def)
  have lang: "dataset_language (cards page1 1) = Some ''rw''"
    by (simp add: page1_cards)
  from language_filter_settles [OF a b c, of "''en''" 1] k sel lang
  have en: "display (cards (advance 300 (languageFilter_change ''en'' page1)) 1) = ''none''"
    and click: "display (cards (advance 300 (languageButton_click 1 page1)) 1) = ''none''"
    by (simp_all add: Let_def)
  from language_filter_settles [OF a b c, of "''rw''" 1] lang
  have rw: "display (cards (advance 300 (languageFilter_change ''rw'' page1)) 1) = ''block''"
    "opacity (cards (advance 300 (languageFilter_change ''rw'' page1)) 1) = ''1''"
    by (simp_all add: Let_def)
  show ?thesis
    using a b c k en rw click by blast
qed

end
